theory Spec2Isabelle
  imports Main "HOL-Library.Word"
begin

section \<open>The sketch \<^verbatim>\<open>06_LED_Blink_SW.ino\<close>: data model\<close>

text \<open>
  The sketch polls one push button and drives three LEDs. Its whole state is five global
  variables; everything else it touches is hardware: the level of the switch pin
  (\<^verbatim>\<open>digitalRead\<close>), the millisecond counter (\<^verbatim>\<open>millis\<close>) and the levels of the
  output pins (\<^verbatim>\<open>digitalWrite\<close>).

  \<^item> \<^verbatim>\<open>unsigned long\<close> is a 32-bit word: subtraction wraps, comparison is unsigned.
  \<^item> \<^verbatim>\<open>bool\<close> is \<open>bool\<close>; a pin level is a \<open>bool\<close> with \<^verbatim>\<open>HIGH\<close> as \<open>True\<close>.
  \<^item> \<^verbatim>\<open>int stepIndex\<close> is an unbounded \<open>int\<close>. The only arithmetic on it is the
    increment in \<^verbatim>\<open>updateState\<close>; lemma \<open>run_stepIndex_range\<close> below shows that the
    value lies in 0..4 before every increment the program performs, so the increment
    overflows for no width of \<^verbatim>\<open>int\<close>.
  \<^item> Every hardware read is an argument of the function that performs it, one argument
    per call site: the source says nothing about how far apart two reads of the clock
    are, so the model does not either.
\<close>

type_synonym u32 = "32 word"

text \<open>Pin levels, as \<^verbatim>\<open>Arduino.h\<close> defines them (\<^verbatim>\<open>HIGH\<close> is 1, \<^verbatim>\<open>LOW\<close> is 0).\<close>

definition HIGH :: bool where "HIGH = True"
definition LOW :: bool where "LOW = False"

definition SW_PIN :: int where "SW_PIN = 2"
definition LED1_PIN :: int where "LED1_PIN = 8"
definition LED2_PIN :: int where "LED2_PIN = 9"
definition LED3_PIN :: int where "LED3_PIN = 10"

definition DEBOUNCE_MS :: u32 where "DEBOUNCE_MS = 20"

definition STEP_OFF :: int where "STEP_OFF = 0"
definition STEP_LED1 :: int where "STEP_LED1 = 1"
definition STEP_LED2 :: int where "STEP_LED2 = 2"
definition STEP_LED3 :: int where "STEP_LED3 = 3"
definition STEP_ALL :: int where "STEP_ALL = 4"

definition LED_INTERVAL_MS :: u32 where "LED_INTERVAL_MS = 300"

text \<open>The five global variables, and their initial values.\<close>

record globals =
  mode :: bool
  lastSwState :: bool
  lastSwTime :: u32
  ledTimer :: u32
  stepIndex :: int

definition init :: globals where
  "init = \<lparr>mode = False, lastSwState = HIGH, lastSwTime = 0, ledTimer = 0,
            stepIndex = STEP_OFF\<rparr>"

text \<open>The output pins: the level last written to each pin number.\<close>

type_synonym pins = "int \<Rightarrow> bool"

definition digitalWrite :: "int \<Rightarrow> bool \<Rightarrow> pins \<Rightarrow> pins" where
  "digitalWrite pin val p = p(pin := val)"

section \<open>The functions of the sketch\<close>

text \<open>
  \<^verbatim>\<open>readSwitch()\<close>. \<open>level\<close> is what \<^verbatim>\<open>digitalRead(SW_PIN)\<close> returns, \<open>m1\<close> what
  \<^verbatim>\<open>millis()\<close> returns where the change is recorded (read only when the level differs
  from \<open>lastSwState\<close>), \<open>m2\<close> what it returns in the debounce test. The result is the
  returned flag and the globals after the call.
\<close>

definition readSwitch :: "bool \<Rightarrow> u32 \<Rightarrow> u32 \<Rightarrow> globals \<Rightarrow> bool \<times> globals" where
  "readSwitch level m1 m2 s =
     (let now = level;
          s1 = (if now \<noteq> lastSwState s then s\<lparr>lastSwTime := m1\<rparr> else s);
          pressed =
            (if m2 - lastSwTime s1 > DEBOUNCE_MS
             then (if lastSwState s1 = HIGH \<and> now = LOW then True else False)
             else False)
      in (pressed, s1\<lparr>lastSwState := now\<rparr>))"

text \<open>
  \<^verbatim>\<open>updateState(swPressed)\<close>. \<open>m1\<close> is what \<^verbatim>\<open>millis()\<close> returns in the toggle branch
  (read only when \<open>swPressed\<close>), \<open>m2\<close> what it returns in the lit branch (read only when
  \<open>mode\<close> holds after the toggle).
\<close>

definition updateState :: "bool \<Rightarrow> u32 \<Rightarrow> u32 \<Rightarrow> globals \<Rightarrow> globals" where
  "updateState swPressed m1 m2 s =
     (let s1 = (if swPressed
                then s\<lparr>mode := \<not> mode s, stepIndex := STEP_OFF, ledTimer := m1\<rparr>
                else s)
      in if mode s1
         then (let now = m2
               in if now - ledTimer s1 \<ge> LED_INTERVAL_MS
                  then (let s2 = s1\<lparr>ledTimer := now\<rparr>;
                            s3 = s2\<lparr>stepIndex := stepIndex s2 + 1\<rparr>
                        in if stepIndex s3 > STEP_ALL
                           then s3\<lparr>stepIndex := STEP_OFF\<rparr>
                           else s3)
                  else s1)
         else s1)"

text \<open>
  \<^verbatim>\<open>outputLEDs()\<close> reads \<open>mode\<close> and \<open>stepIndex\<close> and writes the three LED pins; it
  assigns to no global.
\<close>

definition outputLEDs :: "globals \<Rightarrow> pins \<Rightarrow> pins" where
  "outputLEDs s p =
     (if \<not> mode s
      then digitalWrite LED3_PIN LOW (digitalWrite LED2_PIN LOW (digitalWrite LED1_PIN LOW p))
      else digitalWrite LED3_PIN
             (if stepIndex s = STEP_LED3 \<or> stepIndex s = STEP_ALL then HIGH else LOW)
             (digitalWrite LED2_PIN
                (if stepIndex s = STEP_LED2 \<or> stepIndex s = STEP_ALL then HIGH else LOW)
                (digitalWrite LED1_PIN
                   (if stepIndex s = STEP_LED1 \<or> stepIndex s = STEP_ALL then HIGH else LOW)
                   p)))"

text \<open>
  One iteration of \<^verbatim>\<open>loop()\<close>. The hardware reads of the iteration: the switch level
  and the values of \<^verbatim>\<open>millis()\<close> at its four call sites, in program order.
\<close>

record reads =
  sw_level :: bool
  ms_change :: u32
  ms_debounce :: u32
  ms_toggle :: u32
  ms_led :: u32

definition loop :: "reads \<Rightarrow> globals \<times> pins \<Rightarrow> globals \<times> pins" where
  "loop r c =
     (let (swPressed, s1) = readSwitch (sw_level r) (ms_change r) (ms_debounce r) (fst c);
          s2 = updateState swPressed (ms_toggle r) (ms_led r) s1
      in (s2, outputLEDs s2 (snd c)))"

text \<open>The program: \<^verbatim>\<open>loop()\<close> again and again, one record of reads per iteration.\<close>

fun run :: "reads list \<Rightarrow> globals \<times> pins \<Rightarrow> globals \<times> pins" where
  "run [] c = c"
| "run (r # rs) c = run rs (loop r c)"

section \<open>The environment and the drivers used in the statements\<close>

text \<open>
  The millisecond counter. \<^verbatim>\<open>millis()\<close> returns the number of milliseconds since the
  board started in an \<^verbatim>\<open>unsigned long\<close>: at true time \<open>T\<close> it reads \<open>T\<close> modulo \<open>2^32\<close>.
\<close>

definition millis_at :: "nat \<Rightarrow> u32" where
  "millis_at T = of_nat T"

text \<open>
  \<open>polls\<close> calls \<^verbatim>\<open>readSwitch()\<close> once per entry of a list of (switch level, clock)
  pairs and collects the returned flags. Both clock reads of a call return the same
  value: the call is much shorter than a millisecond.
\<close>

fun polls :: "(bool \<times> u32) list \<Rightarrow> globals \<Rightarrow> bool list" where
  "polls [] s = []"
| "polls (x # xs) s =
     fst (readSwitch (fst x) (snd x) (snd x) s)
       # polls xs (snd (readSwitch (fst x) (snd x) (snd x) s))"

text \<open>Output pins that are all low, and all high.\<close>

definition dark :: pins where "dark = (\<lambda>pin. LOW)"
definition lit :: pins where "lit = (\<lambda>pin. HIGH)"

text \<open>
  Reads of single iterations, used as concrete inputs below. \<open>press_at t\<close>: the switch
  is low, the change is recorded at \<open>t\<close> and every later read of the iteration returns
  \<open>t + 21\<close>, so that the debounce test of that same call passes. \<open>idle_at t\<close>: the switch
  is low and every read of the iteration returns \<open>t\<close>.
\<close>

definition press_at :: "u32 \<Rightarrow> reads" where
  "press_at t = \<lparr>sw_level = LOW, ms_change = t, ms_debounce = t + 21,
                  ms_toggle = t + 21, ms_led = t + 21\<rparr>"

definition idle_at :: "u32 \<Rightarrow> reads" where
  "idle_at t = \<lparr>sw_level = LOW, ms_change = t, ms_debounce = t,
                 ms_toggle = t, ms_led = t\<rparr>"

section \<open>The machine on (mode, stepIndex) alone\<close>

text \<open>
  The specification describes the program as a machine whose state is a mode flag and a
  step index. \<open>abs_of\<close> projects the globals to that pair. \<open>abs_update\<close> is the step of
  such a machine, following the specification's words (a press toggles the animation
  and restarts it, an elapsed interval advances the step with wrap-around); it is
  driven by two events, \<open>pressed\<close> and \<open>tick\<close>, and has no clock and no switch history of
  its own. \<open>abs_leds\<close> is its output.
\<close>

type_synonym mode_step = "bool \<times> int"

definition abs_of :: "globals \<Rightarrow> mode_step" where
  "abs_of s = (mode s, stepIndex s)"

definition abs_update :: "bool \<Rightarrow> bool \<Rightarrow> mode_step \<Rightarrow> mode_step" where
  "abs_update pressed tick a =
     (let a1 = (if pressed then (\<not> fst a, STEP_OFF) else a)
      in if fst a1 \<and> tick
         then (fst a1, if snd a1 = STEP_ALL then STEP_OFF else snd a1 + 1)
         else a1)"


text \<open>
  The two events of an iteration, as the full program computes them: the flag
  \<^verbatim>\<open>readSwitch()\<close> returns, and the outcome of the interval test of \<^verbatim>\<open>updateState()\<close>
  against the timer that is current when the test runs.
\<close>

definition press_event :: "reads \<Rightarrow> globals \<Rightarrow> bool" where
  "press_event r s = fst (readSwitch (sw_level r) (ms_change r) (ms_debounce r) s)"

definition tick_event :: "reads \<Rightarrow> globals \<Rightarrow> bool" where
  "tick_event r s =
     (ms_led r - (if press_event r s then ms_toggle r else ledTimer s) \<ge> LED_INTERVAL_MS)"

section \<open>Timing, and configurations up to \<open>lastSwTime\<close>\<close>

text \<open>
  Normal timing of an iteration: the two clock reads of one \<^verbatim>\<open>readSwitch()\<close> call, which
  are adjacent statements of the source, are at most \<open>DEBOUNCE_MS\<close> apart. \<open>polls\<close> and
  \<open>idle_at\<close> above have it (both reads equal); \<open>press_at\<close> does not.
\<close>

definition normal_timing :: "reads \<Rightarrow> bool" where
  "normal_timing r = (ms_debounce r - ms_change r \<le> DEBOUNCE_MS)"

text \<open>Two configurations that agree on everything but \<open>lastSwTime\<close>.\<close>

definition same_but_lastSwTime :: "globals \<times> pins \<Rightarrow> globals \<times> pins \<Rightarrow> bool" where
  "same_but_lastSwTime c c' =
     (mode (fst c) = mode (fst c') \<and> lastSwState (fst c) = lastSwState (fst c') \<and>
      ledTimer (fst c) = ledTimer (fst c') \<and> stepIndex (fst c) = stepIndex (fst c') \<and>
      snd c = snd c')"

section \<open>Basic facts\<close>

lemmas consts_defs = HIGH_def LOW_def SW_PIN_def LED1_PIN_def LED2_PIN_def LED3_PIN_def
  DEBOUNCE_MS_def STEP_OFF_def STEP_LED1_def STEP_LED2_def STEP_LED3_def STEP_ALL_def
  LED_INTERVAL_MS_def

text \<open>\<^verbatim>\<open>readSwitch()\<close> assigns to \<open>lastSwState\<close> and \<open>lastSwTime\<close> only.\<close>

lemma readSwitch_frame:
  "mode (snd (readSwitch level m1 m2 s)) = mode s \<and>
   stepIndex (snd (readSwitch level m1 m2 s)) = stepIndex s \<and>
   ledTimer (snd (readSwitch level m1 m2 s)) = ledTimer s"
  by (simp add: readSwitch_def Let_def)

text \<open>
  The range 0..4 of \<open>stepIndex\<close> is kept by \<^verbatim>\<open>updateState()\<close>, by one iteration and by
  every run; so the increment of \<open>stepIndex\<close> never meets a value above 4.
\<close>

lemma updateState_stepIndex_range:
  assumes "STEP_OFF \<le> stepIndex s" and "stepIndex s \<le> STEP_ALL"
  shows "STEP_OFF \<le> stepIndex (updateState sw m1 m2 s) \<and>
         stepIndex (updateState sw m1 m2 s) \<le> STEP_ALL"
  using assms by (simp add: updateState_def Let_def STEP_OFF_def STEP_ALL_def)

lemma loop_stepIndex_range:
  assumes "STEP_OFF \<le> stepIndex (fst c)" and "stepIndex (fst c) \<le> STEP_ALL"
  shows "STEP_OFF \<le> stepIndex (fst (loop r c)) \<and> stepIndex (fst (loop r c)) \<le> STEP_ALL"
proof -
  let ?s1 = "snd (readSwitch (sw_level r) (ms_change r) (ms_debounce r) (fst c))"
  have "STEP_OFF \<le> stepIndex ?s1" and "stepIndex ?s1 \<le> STEP_ALL"
    using assms by (simp_all add: readSwitch_frame)
  then show ?thesis
    by (simp add: loop_def split_beta Let_def updateState_stepIndex_range)
qed

lemma run_stepIndex_range:
  "STEP_OFF \<le> stepIndex (fst c) \<Longrightarrow> stepIndex (fst c) \<le> STEP_ALL \<Longrightarrow>
     STEP_OFF \<le> stepIndex (fst (run rs c)) \<and> stepIndex (fst (run rs c)) \<le> STEP_ALL"
proof (induction rs arbitrary: c)
  case Nil
  then show ?case by simp
next
  case (Cons r rs)
  from loop_stepIndex_range [OF Cons.prems, of r]
  show ?case by (simp add: Cons.IH)
qed

lemma step_set_iff:
  "(i \<in> {STEP_OFF, STEP_LED1, STEP_LED2, STEP_LED3, STEP_ALL}) = (STEP_OFF \<le> i \<and> i \<le> STEP_ALL)"
  by (auto simp: consts_defs)

text \<open>
  A run that reaches lit mode at step 4: one accepted press, then four intervals of
  300 ms.
\<close>

lemma run_lit_4:
  "fst (run [press_at 0, idle_at 400, idle_at 700, idle_at 1000, idle_at 1300] (init, dark))
     = \<lparr>mode = True, lastSwState = LOW, lastSwTime = 0, ledTimer = 1300, stepIndex = STEP_ALL\<rparr>"
  by (simp add: loop_def readSwitch_def updateState_def press_at_def idle_at_def init_def
        Let_def consts_defs)

section \<open>The debounce of \<^verbatim>\<open>readSwitch()\<close>\<close>

text \<open>
  What \<^verbatim>\<open>readSwitch()\<close> returns, exactly. A press needs a HIGH-to-LOW change in this
  very call; the change overwrites \<open>lastSwTime\<close> with the first clock read before the
  debounce test compares the second clock read against it. So the test measures the
  time between the two clock reads of one call, and the time recorded by earlier calls
  plays no part.
\<close>

lemma readSwitch_pressed_iff:
  "fst (readSwitch level m1 m2 s)
     = (lastSwState s = HIGH \<and> level = LOW \<and> DEBOUNCE_MS < m2 - m1)"
  by (auto simp: readSwitch_def Let_def HIGH_def LOW_def)

text \<open>
  Hence, with both clock reads of each call equal, no sequence of calls from any state
  ever returns true.
\<close>

lemma polls_never_press: "True \<notin> set (polls xs s)"
  by (induction xs arbitrary: s)
    (auto simp: readSwitch_def Let_def HIGH_def LOW_def DEBOUNCE_MS_def)

text \<open>
  Claim C1. Each call to \<open>readSwitch\<close> reports a press exactly when a HIGH-to-LOW
  transition of the switch input is accepted after the observed state has remained
  stable for more than \<open>DEBOUNCE_MS\<close> (20 ms).

  The code does not do this. From the initial globals the switch is polled high at
  500 ms (stable since start), then low at 1000, 1001, 1030 and 1100 ms: a clean press
  after 500 ms of stable high level, held for 100 ms. No call reports it.
\<close>

theorem clean_press_unreported:
  "polls [(HIGH, 500), (LOW, 1000), (LOW, 1001), (LOW, 1030), (LOW, 1100)] init
     = [False, False, False, False, False]"
  by (simp add: readSwitch_def init_def Let_def consts_defs)

section \<open>\<^verbatim>\<open>updateState()\<close>\<close>

text \<open>
  Claim C2. For every state, calling \<open>updateState\<close> with \<open>swPressed = true\<close> toggles
  \<open>mode\<close>, resets \<open>stepIndex\<close> to \<open>STEP_OFF\<close> and sets \<open>ledTimer\<close> to the current
  \<^verbatim>\<open>millis()\<close> value.

  \<open>mode\<close> is toggled whatever the clock reads. The rest holds with \<open>m1\<close> as the current
  value whenever the second read of the call is less than 300 ms after the first (in
  particular when both are equal), and always when the press switches the animation off.
\<close>

theorem updateState_press:
  "mode (updateState True m1 m2 s) = (\<not> mode s) \<and>
   (mode s \<or> m2 - m1 < LED_INTERVAL_MS \<longrightarrow>
      updateState True m1 m2 s
        = s\<lparr>mode := \<not> mode s, stepIndex := STEP_OFF, ledTimer := m1\<rparr>)"
  by (auto simp: updateState_def Let_def)

theorem updateState_press_witness:
  "updateState True 1000 1000 init
     = \<lparr>mode = True, lastSwState = HIGH, lastSwTime = 0, ledTimer = 1000,
        stepIndex = STEP_OFF\<rparr> \<and>
   updateState True 2000 9000
      \<lparr>mode = True, lastSwState = LOW, lastSwTime = 0, ledTimer = 1300, stepIndex = STEP_ALL\<rparr>
     = \<lparr>mode = False, lastSwState = LOW, lastSwTime = 0, ledTimer = 2000,
        stepIndex = STEP_OFF\<rparr>"
  using updateState_press [where s = init and ?m1.0 = 1000 and ?m2.0 = 1000]
    updateState_press [where ?m1.0 = 2000 and ?m2.0 = 9000 and
      s = "\<lparr>mode = True, lastSwState = LOW, lastSwTime = 0, ledTimer = 1300,
            stepIndex = STEP_ALL\<rparr>"]
  by (simp add: init_def LED_INTERVAL_MS_def)

text \<open>
  Claim C3. In every reachable state \<open>stepIndex\<close> lies in
  \<open>{STEP_OFF, STEP_LED1, STEP_LED2, STEP_LED3, STEP_ALL}\<close>, and whenever \<open>updateState\<close>
  advances the step in lit mode it replaces \<open>stepIndex\<close> by its successor, wrapping from
  \<open>STEP_ALL\<close> back to \<open>STEP_OFF\<close>.

  Reachable: the globals after any number of iterations of \<^verbatim>\<open>loop()\<close> from the initial
  values, for any hardware reads and any initial pin levels. The step advances either
  in a call without a press in lit mode, or in the call whose press has just lit the
  animation (then from the reset value \<open>STEP_OFF\<close> to \<open>STEP_LED1\<close>). The last conjunct:
  the call leaves \<open>stepIndex\<close> in the set in every case.
\<close>

theorem reachable_stepIndex_cycle:
  assumes "s = fst (run rs (init, p0))"
  shows "stepIndex s \<in> {STEP_OFF, STEP_LED1, STEP_LED2, STEP_LED3, STEP_ALL} \<and>
    (mode s \<and> LED_INTERVAL_MS \<le> m2 - ledTimer s \<longrightarrow>
       stepIndex (updateState False m1 m2 s)
         = (if stepIndex s = STEP_ALL then STEP_OFF else stepIndex s + 1)) \<and>
    (\<not> mode s \<and> LED_INTERVAL_MS \<le> m2 - m1 \<longrightarrow>
       stepIndex (updateState True m1 m2 s) = STEP_LED1) \<and>
    stepIndex (updateState sw m1 m2 s) \<in> {STEP_OFF, STEP_LED1, STEP_LED2, STEP_LED3, STEP_ALL}"
proof -
  have r: "STEP_OFF \<le> stepIndex s \<and> stepIndex s \<le> STEP_ALL"
    unfolding assms
    by (rule run_stepIndex_range) (simp_all add: init_def STEP_OFF_def STEP_ALL_def)
  then have "stepIndex s \<in> {STEP_OFF, STEP_LED1, STEP_LED2, STEP_LED3, STEP_ALL}"
    by (simp only: step_set_iff)
  moreover have "mode s \<and> LED_INTERVAL_MS \<le> m2 - ledTimer s \<longrightarrow>
       stepIndex (updateState False m1 m2 s)
         = (if stepIndex s = STEP_ALL then STEP_OFF else stepIndex s + 1)"
    using r by (simp add: updateState_def Let_def STEP_OFF_def STEP_ALL_def)
  moreover have "\<not> mode s \<and> LED_INTERVAL_MS \<le> m2 - m1 \<longrightarrow>
       stepIndex (updateState True m1 m2 s) = STEP_LED1"
    by (simp add: updateState_def Let_def STEP_OFF_def STEP_ALL_def STEP_LED1_def)
  moreover have "stepIndex (updateState sw m1 m2 s)
      \<in> {STEP_OFF, STEP_LED1, STEP_LED2, STEP_LED3, STEP_ALL}"
    using r updateState_stepIndex_range [of s sw m1 m2] by (simp only: step_set_iff)
  ultimately show ?thesis by blast
qed

theorem reachable_stepIndex_cycle_witness:
  "stepIndex (updateState False 0 1600
      \<lparr>mode = True, lastSwState = LOW, lastSwTime = 0, ledTimer = 1300, stepIndex = STEP_ALL\<rparr>)
     = STEP_OFF \<and>
   stepIndex (updateState True 7 307 init) = STEP_LED1"
  using reachable_stepIndex_cycle [OF run_lit_4 [symmetric], where ?m1.0 = 0 and ?m2.0 = 1600]
    reachable_stepIndex_cycle [where s = init and rs = "[]" and ?p0.0 = dark
      and ?m1.0 = 7 and ?m2.0 = 307]
  by (simp add: init_def LED_INTERVAL_MS_def)

text \<open>
  Claim C4. While \<open>mode\<close> is true and the button is not pressed, \<open>updateState\<close> advances
  \<open>stepIndex\<close> exactly when at least \<open>LED_INTERVAL_MS\<close> (300 ms) has elapsed since
  \<open>ledTimer\<close>, and in that case it also sets \<open>ledTimer\<close> to the current time; while
  \<open>mode\<close> is false and the button is not pressed, \<open>stepIndex\<close> never advances.

  Elapsed time is the difference of the clock read and \<open>ledTimer\<close> as the code takes
  it, on 32-bit words. The first conjunct gives the whole effect of the call, the second
  says that \<open>stepIndex\<close> changes exactly when the interval has elapsed.
\<close>

theorem updateState_idle:
  "(mode s \<longrightarrow>
      updateState False m1 m2 s =
        (if LED_INTERVAL_MS \<le> m2 - ledTimer s
         then s\<lparr>ledTimer := m2,
                 stepIndex := (if stepIndex s + 1 > STEP_ALL then STEP_OFF else stepIndex s + 1)\<rparr>
         else s)) \<and>
   (mode s \<longrightarrow>
      (stepIndex (updateState False m1 m2 s) \<noteq> stepIndex s)
        = (LED_INTERVAL_MS \<le> m2 - ledTimer s)) \<and>
   (\<not> mode s \<longrightarrow> stepIndex (updateState False m1 m2 s) = stepIndex s)"
  by (simp add: updateState_def Let_def STEP_ALL_def STEP_OFF_def)

theorem updateState_idle_witness:
  "updateState False 0 1600
      \<lparr>mode = True, lastSwState = LOW, lastSwTime = 0, ledTimer = 1300, stepIndex = STEP_ALL\<rparr>
     = \<lparr>mode = True, lastSwState = LOW, lastSwTime = 0, ledTimer = 1600,
        stepIndex = STEP_OFF\<rparr> \<and>
   updateState False 0 1599
      \<lparr>mode = True, lastSwState = LOW, lastSwTime = 0, ledTimer = 1300, stepIndex = STEP_ALL\<rparr>
     = \<lparr>mode = True, lastSwState = LOW, lastSwTime = 0, ledTimer = 1300,
        stepIndex = STEP_ALL\<rparr> \<and>
   stepIndex (updateState False 0 4000000000 init) = stepIndex init"
  using updateState_idle [where ?m1.0 = 0 and ?m2.0 = 1600 and
      s = "\<lparr>mode = True, lastSwState = LOW, lastSwTime = 0, ledTimer = 1300,
            stepIndex = STEP_ALL\<rparr>"]
    updateState_idle [where ?m1.0 = 0 and ?m2.0 = 1599 and
      s = "\<lparr>mode = True, lastSwState = LOW, lastSwTime = 0, ledTimer = 1300,
            stepIndex = STEP_ALL\<rparr>"]
    updateState_idle [where s = init and ?m1.0 = 0 and ?m2.0 = 4000000000]
  by (simp add: init_def LED_INTERVAL_MS_def STEP_ALL_def STEP_OFF_def)

text \<open>
  Claim C8. When \<open>updateState\<close> is called with \<open>swPressed = false\<close> while \<open>mode\<close> is
  false, it changes nothing: \<open>mode\<close>, \<open>stepIndex\<close> and \<open>ledTimer\<close> (and the two other
  globals) keep their values, whatever the clock reads.
\<close>

theorem updateState_idle_dark:
  "\<not> mode s \<Longrightarrow> updateState False m1 m2 s = s"
  by (simp add: updateState_def)

theorem updateState_idle_dark_witness:
  "updateState False 0 4000000000 init = init"
  using updateState_idle_dark [where s = init and ?m1.0 = 0 and ?m2.0 = 4000000000]
  by (simp add: init_def)

section \<open>\<^verbatim>\<open>outputLEDs()\<close>\<close>

text \<open>
  Claim C7. For every state, \<open>outputLEDs\<close> drives LED pin k (k = 1, 2, 3) HIGH if and
  only if \<open>mode\<close> is true and \<open>stepIndex\<close> is \<open>STEP_LEDk\<close> or \<open>STEP_ALL\<close>; in particular,
  whenever \<open>mode\<close> is false, and whenever \<open>stepIndex\<close> is \<open>STEP_OFF\<close>, all three LED pins
  are driven LOW. This holds for any levels the pins had before.
\<close>

theorem outputLEDs_levels:
  "(outputLEDs s p LED1_PIN = HIGH)
     = (mode s \<and> (stepIndex s = STEP_LED1 \<or> stepIndex s = STEP_ALL)) \<and>
   (outputLEDs s p LED2_PIN = HIGH)
     = (mode s \<and> (stepIndex s = STEP_LED2 \<or> stepIndex s = STEP_ALL)) \<and>
   (outputLEDs s p LED3_PIN = HIGH)
     = (mode s \<and> (stepIndex s = STEP_LED3 \<or> stepIndex s = STEP_ALL)) \<and>
   (\<not> mode s \<or> stepIndex s = STEP_OFF \<longrightarrow>
      outputLEDs s p LED1_PIN = LOW \<and> outputLEDs s p LED2_PIN = LOW \<and>
      outputLEDs s p LED3_PIN = LOW)"
  by (auto simp: outputLEDs_def digitalWrite_def consts_defs)

theorem outputLEDs_levels_witness:
  "outputLEDs init lit LED1_PIN = LOW \<and> outputLEDs init lit LED2_PIN = LOW \<and>
   outputLEDs init lit LED3_PIN = LOW \<and>
   outputLEDs (init\<lparr>mode := True\<rparr>) lit LED1_PIN = LOW \<and>
   outputLEDs (init\<lparr>mode := True, stepIndex := STEP_LED2\<rparr>) dark LED2_PIN = HIGH"
  using outputLEDs_levels [where s = init and p = lit]
    outputLEDs_levels [where s = "init\<lparr>mode := True\<rparr>" and p = lit]
    outputLEDs_levels [where s = "init\<lparr>mode := True, stepIndex := STEP_LED2\<rparr>" and p = dark]
  by (simp add: init_def consts_defs)

section \<open>The elapsed-time tests and the wrap of the counter\<close>

lemma millis_at_elapsed: "d < 2 ^ 32 \<Longrightarrow> unat (millis_at (T + d) - millis_at T) = d"
  by (simp add: millis_at_def unat_of_nat)

text \<open>
  Claim C9. The elapsed-time tests use unsigned 32-bit modular subtraction, so each test
  agrees with the true elapsed-time comparison even when the millisecond counter wraps
  past \<open>2^32 - 1\<close>, for every true elapsed time below \<open>2^32\<close> ms.

  \<open>T\<close> is the true time (in ms, unbounded) at which the timer was set, \<open>d\<close> the true
  time elapsed since. The first two conjuncts are the two tests as the code writes
  them, the last two their effect on the functions. In \<open>readSwitch\<close> the outcome of
  the test is visible in the result only when the level has changed, and then the timer
  is the first clock read of the call; in \<open>updateState\<close> the timer is \<open>ledTimer\<close>.
\<close>

theorem elapsed_tests_wrap:
  "d < 2 ^ 32 \<Longrightarrow>
     (DEBOUNCE_MS < millis_at (T + d) - millis_at T) = (unat DEBOUNCE_MS < d) \<and>
     (LED_INTERVAL_MS \<le> millis_at (T + d) - millis_at T) = (unat LED_INTERVAL_MS \<le> d) \<and>
     fst (readSwitch level (millis_at T) (millis_at (T + d)) s)
       = (lastSwState s = HIGH \<and> level = LOW \<and> unat DEBOUNCE_MS < d) \<and>
     (mode s \<and> ledTimer s = millis_at T \<longrightarrow>
        (stepIndex (updateState False m1 (millis_at (T + d)) s) \<noteq> stepIndex s)
          = (unat LED_INTERVAL_MS \<le> d))"
  using millis_at_elapsed [of d T]
  by (auto simp: readSwitch_def updateState_def Let_def word_less_nat_alt word_le_nat_alt
        HIGH_def LOW_def STEP_ALL_def STEP_OFF_def)

theorem elapsed_tests_wrap_witness:
  "millis_at 4294967290 = 4294967290 \<and> millis_at (4294967290 + 21) = 15 \<and>
   fst (readSwitch LOW (millis_at 4294967290) (millis_at (4294967290 + 21)) init) = True \<and>
   fst (readSwitch LOW (millis_at 4294967290) (millis_at (4294967290 + 20)) init) = False \<and>
   stepIndex (updateState False 0 (millis_at (4294967290 + 300))
      (init\<lparr>mode := True, ledTimer := millis_at 4294967290\<rparr>)) \<noteq> STEP_OFF \<and>
   stepIndex (updateState False 0 (millis_at (4294967290 + 299))
      (init\<lparr>mode := True, ledTimer := millis_at 4294967290\<rparr>)) = STEP_OFF"
  using elapsed_tests_wrap [where d = 21 and level = LOW and T = 4294967290 and s = init]
    elapsed_tests_wrap [where d = 20 and level = LOW and T = 4294967290 and s = init]
    elapsed_tests_wrap [where d = 300 and T = 4294967290 and ?m1.0 = 0 and
      s = "init\<lparr>mode := True, ledTimer := millis_at 4294967290\<rparr>"]
    elapsed_tests_wrap [where d = 299 and T = 4294967290 and ?m1.0 = 0 and
      s = "init\<lparr>mode := True, ledTimer := millis_at 4294967290\<rparr>"]
  by (simp add: init_def millis_at_def HIGH_def LOW_def DEBOUNCE_MS_def LED_INTERVAL_MS_def
        STEP_OFF_def)

section \<open>Purity\<close>

text \<open>
  Claim C5, as stated: \<open>readSwitch\<close>, \<open>updateState\<close> and \<open>outputLEDs\<close> are pure
  functions, their result and effect determined by their explicit arguments alone, with
  no dependence on or mutation of hidden state.

  This fails. Two calls \<^verbatim>\<open>updateState(true)\<close> in a row, with the same clock reads,
  leave different modes; the first call changes the globals; \<^verbatim>\<open>readSwitch()\<close> with the
  switch low changes the globals; and \<^verbatim>\<open>outputLEDs()\<close>, which has no argument, drives
  LED 1 differently for different globals.
\<close>

theorem functions_not_pure:
  "mode (updateState True 0 0 init) \<noteq> mode (updateState True 0 0 (updateState True 0 0 init)) \<and>
   updateState True 0 0 init \<noteq> init \<and>
   snd (readSwitch LOW 5 5 init) \<noteq> init \<and>
   outputLEDs (init\<lparr>mode := True, stepIndex := STEP_ALL\<rparr>) dark LED1_PIN
     \<noteq> outputLEDs init dark LED1_PIN"
  by (simp add: updateState_def readSwitch_def outputLEDs_def digitalWrite_def init_def dark_def
        Let_def consts_defs)

text \<open>
  Claim C5, amended. Each function is a function of its explicit argument, its hardware
  reads and the globals it uses, and writes only its own globals: \<open>readSwitch\<close> reads
  and writes \<open>lastSwState\<close> and \<open>lastSwTime\<close> and leaves \<open>mode\<close>, \<open>stepIndex\<close> and
  \<open>ledTimer\<close> alone; \<open>updateState\<close> reads and writes \<open>mode\<close>, \<open>stepIndex\<close> and
  \<open>ledTimer\<close> and leaves \<open>lastSwState\<close> and \<open>lastSwTime\<close> alone; \<open>outputLEDs\<close> reads
  \<open>mode\<close> and \<open>stepIndex\<close> and writes no global.
\<close>

theorem functions_footprint:
  "(lastSwState s = lastSwState s' \<and> lastSwTime s = lastSwTime s' \<longrightarrow>
      fst (readSwitch level m1 m2 s) = fst (readSwitch level m1 m2 s') \<and>
      lastSwState (snd (readSwitch level m1 m2 s))
        = lastSwState (snd (readSwitch level m1 m2 s')) \<and>
      lastSwTime (snd (readSwitch level m1 m2 s))
        = lastSwTime (snd (readSwitch level m1 m2 s'))) \<and>
   mode (snd (readSwitch level m1 m2 s)) = mode s \<and>
   stepIndex (snd (readSwitch level m1 m2 s)) = stepIndex s \<and>
   ledTimer (snd (readSwitch level m1 m2 s)) = ledTimer s \<and>
   (mode s = mode s' \<and> stepIndex s = stepIndex s' \<and> ledTimer s = ledTimer s' \<longrightarrow>
      mode (updateState sw m1 m2 s) = mode (updateState sw m1 m2 s') \<and>
      stepIndex (updateState sw m1 m2 s) = stepIndex (updateState sw m1 m2 s') \<and>
      ledTimer (updateState sw m1 m2 s) = ledTimer (updateState sw m1 m2 s')) \<and>
   lastSwState (updateState sw m1 m2 s) = lastSwState s \<and>
   lastSwTime (updateState sw m1 m2 s) = lastSwTime s \<and>
   (mode s = mode s' \<and> stepIndex s = stepIndex s' \<longrightarrow> outputLEDs s p = outputLEDs s' p)"
  by (simp add: readSwitch_def updateState_def outputLEDs_def Let_def)

theorem functions_footprint_witness:
  "fst (readSwitch LOW 0 21 (init\<lparr>mode := True, stepIndex := STEP_LED3, ledTimer := 7\<rparr>))
     = fst (readSwitch LOW 0 21 init) \<and>
   mode (updateState True 5 5 (init\<lparr>lastSwState := LOW, lastSwTime := 99\<rparr>))
     = mode (updateState True 5 5 init) \<and>
   outputLEDs (init\<lparr>lastSwState := LOW, lastSwTime := 99, ledTimer := 50\<rparr>) lit
     = outputLEDs init lit"
  using functions_footprint [where s' = init and level = LOW and ?m1.0 = 0 and ?m2.0 = 21 and
      s = "init\<lparr>mode := True, stepIndex := STEP_LED3, ledTimer := 7\<rparr>"]
    functions_footprint [where s' = init and sw = True and ?m1.0 = 5 and ?m2.0 = 5 and
      s = "init\<lparr>lastSwState := LOW, lastSwTime := 99\<rparr>"]
    functions_footprint [where s' = init and p = lit and
      s = "init\<lparr>lastSwState := LOW, lastSwTime := 99, ledTimer := 50\<rparr>"]
  by (simp add: init_def)

section \<open>The program and the machine on (mode, stepIndex)\<close>


text \<open>
  For all reads, \<open>mode\<close> and \<open>stepIndex\<close> evolve as \<open>abs_update\<close> does when it is given
  the two events of the iteration.
\<close>

lemma loop_abs_update:
  assumes "STEP_OFF \<le> stepIndex (fst c)" and "stepIndex (fst c) \<le> STEP_ALL"
  shows "abs_of (fst (loop r c))
           = abs_update (press_event r (fst c)) (tick_event r (fst c)) (abs_of (fst c))"
  using assms
  by (simp add: loop_def split_beta Let_def abs_of_def abs_update_def press_event_def
        tick_event_def updateState_def readSwitch_frame STEP_OFF_def STEP_ALL_def)

text \<open>
  \<open>lastSwTime\<close> carries no information, whatever the clock does: \<^verbatim>\<open>readSwitch()\<close> can
  only return true in a call that has just overwritten it. Configurations that differ
  in \<open>lastSwTime\<close> alone stay so, with equal pins, along every list of reads.
\<close>

lemma loop_same_but_lastSwTime:
  "same_but_lastSwTime c c' \<Longrightarrow> same_but_lastSwTime (loop r c) (loop r c')"
  by (auto simp: same_but_lastSwTime_def loop_def split_beta Let_def readSwitch_def
        updateState_def outputLEDs_def HIGH_def LOW_def)

lemma run_same_but_lastSwTime:
  "same_but_lastSwTime c c' \<Longrightarrow> same_but_lastSwTime (run rs c) (run rs c')"
  by (induction rs arbitrary: c c') (simp_all add: loop_same_but_lastSwTime)

lemma run_same_but_lastSwTime_witness:
  "same_but_lastSwTime (run [press_at 0, idle_at 400] (init, dark))
     (run [press_at 0, idle_at 400] (init\<lparr>lastSwTime := 999\<rparr>, dark))"
  using run_same_but_lastSwTime [where rs = "[press_at 0, idle_at 400]" and c = "(init, dark)"
      and c' = "(init\<lparr>lastSwTime := 999\<rparr>, dark)"]
  by (simp add: same_but_lastSwTime_def)






text \<open>
  The hypothesis on the timing is needed. If the clock advances by 21 ms between the two
  reads of one \<^verbatim>\<open>readSwitch()\<close> call, that call accepts a press, and from then on
  \<open>ledTimer\<close> decides when the LEDs change: two such one-iteration runs (press recorded
  at 0 ms and at 979 ms) end with the same \<open>mode\<close>, \<open>stepIndex\<close> and pin levels, and the
  same next iteration at 1100 ms lights LED 1 after the first and not after the second.
\<close>

lemma stalled_clock_ledTimer_matters:
  "\<not> normal_timing (press_at 0) \<and> \<not> normal_timing (press_at 979) \<and>
   abs_of (fst (run [press_at 0] (init, dark))) = abs_of (fst (run [press_at 979] (init, dark))) \<and>
   snd (run [press_at 0] (init, dark)) = snd (run [press_at 979] (init, dark)) \<and>
   snd (loop (idle_at 1100) (run [press_at 0] (init, dark))) LED1_PIN
     \<noteq> snd (loop (idle_at 1100) (run [press_at 979] (init, dark))) LED1_PIN"
  by (simp add: normal_timing_def abs_of_def loop_def readSwitch_def updateState_def
        outputLEDs_def digitalWrite_def press_at_def idle_at_def init_def dark_def Let_def
        consts_defs)

end
